theory Spec2Isabelle
  imports Main
begin

section \<open>SES domain verification handler\<close>

text \<open>
  A shallow embedding of \<^verbatim>\<open>cdk/lib/lambda/ses_verification_handler.py\<close>: the
  custom resource handler that publishes an SES verification token as a Route 53 TXT
  record on Create/Update and removes the record on Delete.

  Conventions of the embedding.
  \<^item> A Python exception is a value of type \<open>error\<close>; a function that may raise returns
    \<open>error + 'a\<close>, with \<open>Inl\<close> for the raised exception.
  \<^item> The two boto3 clients are the record \<open>aws\<close> of three operations. Each operation
    takes the state of the outside world (of an arbitrary type \<open>'w\<close>) and returns its
    outcome and the new state, so that a later call may see the effect of an earlier one.
    Constructing a client (\<^verbatim>\<open>boto3.client\<close>) makes no request and is taken to succeed.
  \<^item> Every function of the handler returns its outcome, the list of requests it sent
    (in the order sent) and the final state of the world.
  \<^item> A response is taken to be well formed, as botocore parses it by the service
    model: an operation that does not raise yields the field the code reads from the
    response (\<^verbatim>\<open>VerificationToken\<close>, \<^verbatim>\<open>ChangeInfo.Id\<close>, \<^verbatim>\<open>ResourceRecordSets\<close>).
  \<^item> The calls to \<^verbatim>\<open>logger\<close> write to the process log only and are left out.
\<close>

subsection \<open>Data\<close>

datatype error =
    KeyError string
  | ValueError string
  | ClientError string

record resource_record =
  Value :: string

record record_set =
  Name :: string
  Type :: string
  TTL :: "int option"
  ResourceRecords :: "resource_record list"

record change =
  Action :: string
  ResourceRecordSet :: record_set

record change_batch =
  Changes :: "change list"

text \<open>
  A request sent to a service: the SES call with the region of its client and the
  domain, the two Route 53 calls with their keyword arguments in the order of the source.
\<close>

datatype call =
    VerifyDomainIdentity string string
  | ChangeResourceRecordSets string change_batch
  | ListResourceRecordSets string string string

record 'w aws =
  verify_domain_identity :: "string \<Rightarrow> string \<Rightarrow> 'w \<Rightarrow> (error + string) \<times> 'w"
  change_resource_record_sets :: "string \<Rightarrow> change_batch \<Rightarrow> 'w \<Rightarrow> (error + string) \<times> 'w"
  list_resource_record_sets ::
    "string \<Rightarrow> string \<Rightarrow> string \<Rightarrow> 'w \<Rightarrow> (error + record_set list) \<times> 'w"

record verification_data =
  VerificationToken :: string
  RecordName :: string
  ChangeId :: string

record response =
  PhysicalResourceId :: string
  Data :: "verification_data option"

text \<open>
  The event is a dictionary: a key may be missing, and subscripting a missing key raises
  \<^verbatim>\<open>KeyError\<close>. The resource properties are a dictionary from strings to strings.
\<close>

record event =
  RequestType :: "string option"
  ResourceProperties :: "(string \<rightharpoonup> string) option"

type_synonym ('a, 'w) run = "(error + 'a) \<times> call list \<times> 'w"

abbreviation outcome :: "('a, 'w) run \<Rightarrow> error + 'a" where
  "outcome x \<equiv> fst x"

abbreviation calls :: "('a, 'w) run \<Rightarrow> call list" where
  "calls x \<equiv> fst (snd x)"

abbreviation world :: "('a, 'w) run \<Rightarrow> 'w" where
  "world x \<equiv> snd (snd x)"

subsection \<open>Python's string operations\<close>

text \<open>\<^verbatim>\<open>s.rstrip(chars)\<close>: \<open>s\<close> without its longest suffix made of characters of \<open>chars\<close>.\<close>

definition rstrip :: "string \<Rightarrow> string \<Rightarrow> string" where
  "rstrip chars s = rev (dropWhile (\<lambda>c. c \<in> set chars) (rev s))"

text \<open>\<^verbatim>\<open>d[k]\<close> on a dictionary.\<close>

definition getitem :: "(string \<rightharpoonup> 'v) \<Rightarrow> string \<Rightarrow> error + 'v" where
  "getitem d k = (case d k of None \<Rightarrow> Inl (KeyError k) | Some v \<Rightarrow> Inr v)"

subsection \<open>create_or_update_verification\<close>

text \<open>
  Lines 32 to 78. The \<^verbatim>\<open>except\<close> clause logs and raises the exception again, so an
  exception of either call is the outcome.
\<close>

definition create_or_update_verification ::
  "'w aws \<Rightarrow> string \<Rightarrow> string \<Rightarrow> string \<Rightarrow> 'w \<Rightarrow> (response, 'w) run" where
  "create_or_update_verification aws domain_name hosted_zone_id region w =
     (case verify_domain_identity aws region domain_name w of
        (Inl e, w1) \<Rightarrow> (Inl e, [VerifyDomainIdentity region domain_name], w1)
      | (Inr verification_token, w1) \<Rightarrow>
          (let record_name = ''_amazonses.'' @ domain_name;
               change_batch = \<lparr>Changes = [\<lparr>
                 Action = ''UPSERT'',
                 ResourceRecordSet = \<lparr>
                   Name = record_name,
                   Type = ''TXT'',
                   TTL = Some 300,
                   ResourceRecords =
                     [\<lparr>Value = [CHR 0x22] @ verification_token @ [CHR 0x22]\<rparr>]\<rparr>\<rparr>]\<rparr>
           in case change_resource_record_sets aws hosted_zone_id change_batch w1 of
                (Inl e, w2) \<Rightarrow>
                  (Inl e,
                   [VerifyDomainIdentity region domain_name,
                    ChangeResourceRecordSets hosted_zone_id change_batch], w2)
              | (Inr change_id, w2) \<Rightarrow>
                  (Inr \<lparr>PhysicalResourceId = ''ses-verification-'' @ domain_name,
                        Data = Some \<lparr>VerificationToken = verification_token,
                                     RecordName = record_name,
                                     ChangeId = change_id\<rparr>\<rparr>,
                   [VerifyDomainIdentity region domain_name,
                    ChangeResourceRecordSets hosted_zone_id change_batch], w2)))"

subsection \<open>delete_verification\<close>

text \<open>
  The \<^verbatim>\<open>for\<close> loop of lines 95 to 110 over the record sets still to scan. The first
  record set that passes the test of line 96 is sent in a DELETE change and the loop
  stops there (\<^verbatim>\<open>break\<close>, or the exception that the call raised).
\<close>

fun delete_loop ::
  "'w aws \<Rightarrow> string \<Rightarrow> string \<Rightarrow> record_set list \<Rightarrow> 'w \<Rightarrow> (unit, 'w) run" where
  "delete_loop aws hosted_zone_id record_name [] w = (Inr (), [], w)"
| "delete_loop aws hosted_zone_id record_name (record_set # rest) w =
     (if rstrip ''.'' (Name record_set) = record_name \<and> Type record_set = ''TXT'' then
        (let change_batch =
               \<lparr>Changes = [\<lparr>Action = ''DELETE'', ResourceRecordSet = record_set\<rparr>]\<rparr>
         in case change_resource_record_sets aws hosted_zone_id change_batch w of
              (Inl e, w') \<Rightarrow>
                (Inl e, [ChangeResourceRecordSets hosted_zone_id change_batch], w')
            | (Inr _, w') \<Rightarrow>
                (Inr (), [ChangeResourceRecordSets hosted_zone_id change_batch], w'))
      else delete_loop aws hosted_zone_id record_name rest w)"

text \<open>The body of the \<^verbatim>\<open>try\<close> block, lines 85 to 114.\<close>

definition delete_try ::
  "'w aws \<Rightarrow> string \<Rightarrow> string \<Rightarrow> string \<Rightarrow> 'w \<Rightarrow> (response, 'w) run" where
  "delete_try aws domain_name hosted_zone_id region w =
     (let record_name = ''_amazonses.'' @ domain_name;
          listing = ListResourceRecordSets hosted_zone_id record_name ''TXT''
      in case list_resource_record_sets aws hosted_zone_id record_name ''TXT'' w of
           (Inl e, w1) \<Rightarrow> (Inl e, [listing], w1)
         | (Inr record_sets, w1) \<Rightarrow>
             (case delete_loop aws hosted_zone_id record_name record_sets w1 of
                (Inl e, cs, w2) \<Rightarrow> (Inl e, listing # cs, w2)
              | (Inr _, cs, w2) \<Rightarrow>
                  (Inr \<lparr>PhysicalResourceId = ''ses-verification-'' @ domain_name,
                        Data = None\<rparr>,
                   listing # cs, w2)))"

text \<open>Lines 80 to 121: the \<^verbatim>\<open>except\<close> clause returns a response for any exception.\<close>

definition delete_verification ::
  "'w aws \<Rightarrow> string \<Rightarrow> string \<Rightarrow> string \<Rightarrow> 'w \<Rightarrow> (response, 'w) run" where
  "delete_verification aws domain_name hosted_zone_id region w =
     (case delete_try aws domain_name hosted_zone_id region w of
        (Inl e, cs, w') \<Rightarrow>
          (Inr \<lparr>PhysicalResourceId = ''ses-verification-'' @ domain_name, Data = None\<rparr>,
           cs, w')
      | (Inr r, cs, w') \<Rightarrow> (Inr r, cs, w'))"

subsection \<open>handler\<close>

text \<open>
  Lines 8 to 30. The five subscripts are evaluated in the order of the source, before
  the request type is looked at; the \<^verbatim>\<open>except\<close> clause logs and raises again.
\<close>

definition handler :: "'w aws \<Rightarrow> event \<Rightarrow> 'c \<Rightarrow> 'w \<Rightarrow> (response, 'w) run" where
  "handler aws event context w =
     (case RequestType event of
        None \<Rightarrow> (Inl (KeyError ''RequestType''), [], w)
      | Some request_type \<Rightarrow>
     (case ResourceProperties event of
        None \<Rightarrow> (Inl (KeyError ''ResourceProperties''), [], w)
      | Some props \<Rightarrow>
     (case getitem props ''DomainName'' of
        Inl e \<Rightarrow> (Inl e, [], w)
      | Inr domain_name \<Rightarrow>
     (case getitem props ''HostedZoneId'' of
        Inl e \<Rightarrow> (Inl e, [], w)
      | Inr hosted_zone_id \<Rightarrow>
     (case getitem props ''Region'' of
        Inl e \<Rightarrow> (Inl e, [], w)
      | Inr region \<Rightarrow>
          if request_type = ''Create'' \<or> request_type = ''Update'' then
            create_or_update_verification aws domain_name hosted_zone_id region w
          else if request_type = ''Delete'' then
            delete_verification aws domain_name hosted_zone_id region w
          else (Inl (ValueError (''Unknown request type: '' @ request_type)), [], w))))))"

subsection \<open>Services for concrete runs\<close>

text \<open>
  Services that answer every request with a fixed outcome and count the requests in the
  state of the world. They are used to run the handler on concrete events.
\<close>

definition stub_aws ::
  "(error + string) \<Rightarrow> (error + string) \<Rightarrow> (error + record_set list) \<Rightarrow> nat aws" where
  "stub_aws token change_id record_sets =
     \<lparr>verify_domain_identity = (\<lambda>region domain w. (token, Suc w)),
      change_resource_record_sets = (\<lambda>zone batch w. (change_id, Suc w)),
      list_resource_record_sets = (\<lambda>zone name type w. (record_sets, Suc w))\<rparr>"

text \<open>A TXT record set as Route 53 lists it, with the trailing dot of the root zone.\<close>

definition example_record_set :: record_set where
  "example_record_set =
     \<lparr>Name = ''_amazonses.example.com.'', Type = ''TXT'', TTL = Some 1800,
      ResourceRecords = [\<lparr>Value = [CHR 0x22] @ ''old-token'' @ [CHR 0x22]\<rparr>]\<rparr>"

text \<open>
  A listing of four record sets: one of another type, one of another name, and two that
  pass the test of \<open>delete_loop\<close> for the domain \<^verbatim>\<open>example.com\<close>.
\<close>

definition example_listing :: "record_set list" where
  "example_listing =
     [\<lparr>Name = ''_amazonses.example.com.'', Type = ''MX'', TTL = Some 300,
       ResourceRecords = [\<lparr>Value = ''10 inbound-smtp.example.com''\<rparr>]\<rparr>,
      \<lparr>Name = ''_amazonses.example.org.'', Type = ''TXT'', TTL = Some 300,
       ResourceRecords = [\<lparr>Value = [CHR 0x22] @ ''other-token'' @ [CHR 0x22]\<rparr>]\<rparr>,
      example_record_set,
      \<lparr>Name = ''_amazonses.example.com'', Type = ''TXT'', TTL = Some 60,
       ResourceRecords = []\<rparr>]"

text \<open>Events with all the resource properties, and one without \<^verbatim>\<open>Region\<close>.\<close>

definition example_properties :: "string \<rightharpoonup> string" where
  "example_properties =
     [''DomainName'' \<mapsto> ''example.com'', ''HostedZoneId'' \<mapsto> ''Z123'',
      ''Region'' \<mapsto> ''us-east-1'']"

definition example_event :: "string \<Rightarrow> event" where
  "example_event request_type =
     \<lparr>RequestType = Some request_type, ResourceProperties = Some example_properties\<rparr>"

definition event_without_region :: event where
  "event_without_region =
     \<lparr>RequestType = Some ''Delete'',
      ResourceProperties =
        Some [''DomainName'' \<mapsto> ''example.com'', ''HostedZoneId'' \<mapsto> ''Z123'']\<rparr>"

section \<open>Properties\<close>

subsection \<open>Auxiliary facts\<close>

lemma rstrip_append_replicate:
  "c \<in> set chars \<Longrightarrow> rstrip chars (s @ replicate k c) = rstrip chars s"
proof -
  assume "c \<in> set chars"
  then have "dropWhile (\<lambda>x. x \<in> set chars) (replicate k c @ rev s) =
      dropWhile (\<lambda>x. x \<in> set chars) (rev s)"
    by (intro dropWhile_append2) simp
  then show ?thesis by (simp add: rstrip_def)
qed

lemma rstrip_self:
  "s = [] \<or> last s \<notin> set chars \<Longrightarrow> rstrip chars s = s"
  by (cases s rule: rev_cases) (simp_all add: rstrip_def)

lemma rstrip_decompose:
  "\<exists>k. n = rstrip ''.'' n @ replicate k CHR ''.''"
proof -
  let ?P = "\<lambda>c. c \<in> set ''.''"
  have "takeWhile ?P (rev n) = replicate (length (takeWhile ?P (rev n))) CHR ''.''"
    by (rule replicate_length_same [symmetric]) (auto dest: set_takeWhileD)
  moreover have "n = rev (dropWhile ?P (rev n)) @ rev (takeWhile ?P (rev n))"
    by (metis rev_append rev_rev_ident takeWhile_dropWhile_id)
  ultimately have "n = rstrip ''.'' n @ replicate (length (takeWhile ?P (rev n))) CHR ''.''"
    by (metis rstrip_def rev_replicate)
  then show ?thesis ..
qed

lemma rstrip_last:
  "rstrip chars n = [] \<or> last (rstrip chars n) \<notin> set chars"
proof (cases "dropWhile (\<lambda>c. c \<in> set chars) (rev n)")
  case Nil
  then show ?thesis by (simp add: rstrip_def)
next
  case (Cons x xs)
  then have "x \<notin> set chars"
    using hd_dropWhile [of "\<lambda>c. c \<in> set chars" "rev n"] by simp
  with Cons show ?thesis by (simp add: rstrip_def)
qed

lemma rstrip_dot_iff:
  "rstrip ''.'' n = s \<longleftrightarrow>
     (\<exists>k. n = s @ replicate k CHR ''.'') \<and> (s = [] \<or> last s \<noteq> CHR ''.'')"
proof
  assume "rstrip ''.'' n = s"
  then show "(\<exists>k. n = s @ replicate k CHR ''.'') \<and> (s = [] \<or> last s \<noteq> CHR ''.'')"
    using rstrip_decompose [of n] rstrip_last [of "''.''" n] by auto
next
  assume r: "(\<exists>k. n = s @ replicate k CHR ''.'') \<and> (s = [] \<or> last s \<noteq> CHR ''.'')"
  then obtain k where "n = s @ replicate k CHR ''.''" by blast
  then have "rstrip ''.'' n = rstrip ''.'' s"
    by (simp add: rstrip_append_replicate)
  also have "\<dots> = s"
    using r by (intro rstrip_self) auto
  finally show "rstrip ''.'' n = s" .
qed

lemma delete_loop_calls:
  "calls (delete_loop aws z rn rss w) =
     (case find (\<lambda>rs. rstrip ''.'' (Name rs) = rn \<and> Type rs = ''TXT'') rss of
        None \<Rightarrow> []
      | Some rs \<Rightarrow>
          [ChangeResourceRecordSets z
             \<lparr>Changes = [\<lparr>Action = ''DELETE'', ResourceRecordSet = rs\<rparr>]\<rparr>])"
  by (induction rss) (simp_all add: Let_def split: prod.splits sum.splits)

lemma delete_verification_calls:
  "calls (delete_verification aws d z r w) =
     ListResourceRecordSets z (''_amazonses.'' @ d) ''TXT'' #
     (case fst (list_resource_record_sets aws z (''_amazonses.'' @ d) ''TXT'' w) of
        Inl e \<Rightarrow> []
      | Inr rss \<Rightarrow> calls (delete_loop aws z (''_amazonses.'' @ d) rss
           (snd (list_resource_record_sets aws z (''_amazonses.'' @ d) ''TXT'' w))))"
  by (simp add: delete_verification_def delete_try_def Let_def split: prod.splits sum.splits)

subsection \<open>Delete never raises\<close>

text \<open>
  C1. For every domain, zone id and region, and whatever the services answer to the
  listing and to the DELETE change (the services and the state of the world are
  arbitrary), \<open>delete_verification\<close> does not raise: its outcome is the response with
  physical resource id \<open>ses-verification-\<close> followed by the domain, and no \<open>Data\<close>.
\<close>

theorem delete_verification_never_raises:
  "outcome (delete_verification aws d z r w) =
     Inr \<lparr>PhysicalResourceId = ''ses-verification-'' @ d, Data = None\<rparr>"
  by (simp add: delete_verification_def delete_try_def Let_def split: prod.splits sum.splits)

text \<open>The listing succeeds with a matching record set and the DELETE change fails.\<close>

theorem delete_verification_never_raises_witness:
  "outcome (delete_verification
       (stub_aws (Inr ''token'') (Inl (ClientError ''Throttling'')) (Inr [example_record_set]))
       ''example.com'' ''Z123'' ''us-east-1'' 0) =
     Inr \<lparr>PhysicalResourceId = ''ses-verification-example.com'', Data = None\<rparr>"
  using delete_verification_never_raises
    [of "stub_aws (Inr ''token'') (Inl (ClientError ''Throttling'')) (Inr [example_record_set])"
        "''example.com''" "''Z123''" "''us-east-1''" 0]
  by simp

subsection \<open>The physical resource id of Create and Update\<close>

text \<open>
  C2. Whenever \<open>create_or_update_verification\<close> returns a response for a domain \<open>d\<close>,
  its physical resource id is \<open>ses-verification-\<close> followed by \<open>d\<close>; a second run for
  the same domain, with any services, zone, region and state of the world (so also an
  Update after the Create), returns the same id.
\<close>

theorem create_or_update_physical_id:
  assumes "outcome (create_or_update_verification aws d z r w) = Inr res"
    and "outcome (create_or_update_verification aws' d z' r' w') = Inr res'"
  shows "PhysicalResourceId res = ''ses-verification-'' @ d \<and>
         PhysicalResourceId res' = PhysicalResourceId res"
  using assms
  by (auto simp: create_or_update_verification_def Let_def split: prod.splits sum.splits)

theorem create_or_update_physical_id_witness:
  "outcome (create_or_update_verification
       (stub_aws (Inr ''token-1'') (Inr ''/change/C1'') (Inr []))
       ''example.com'' ''Z123'' ''us-east-1'' 0) =
     Inr \<lparr>PhysicalResourceId = ''ses-verification-example.com'',
          Data = Some \<lparr>VerificationToken = ''token-1'',
                       RecordName = ''_amazonses.example.com'',
                       ChangeId = ''/change/C1''\<rparr>\<rparr> \<and>
   outcome (create_or_update_verification
       (stub_aws (Inr ''token-2'') (Inr ''/change/C2'') (Inr []))
       ''example.com'' ''Z456'' ''eu-west-1'' 2) =
     Inr \<lparr>PhysicalResourceId = ''ses-verification-example.com'',
          Data = Some \<lparr>VerificationToken = ''token-2'',
                       RecordName = ''_amazonses.example.com'',
                       ChangeId = ''/change/C2''\<rparr>\<rparr> \<and>
   PhysicalResourceId \<lparr>PhysicalResourceId = ''ses-verification-example.com'',
          Data = Some \<lparr>VerificationToken = ''token-2'',
                       RecordName = ''_amazonses.example.com'',
                       ChangeId = ''/change/C2''\<rparr>\<rparr> =
   PhysicalResourceId \<lparr>PhysicalResourceId = ''ses-verification-example.com'',
          Data = Some \<lparr>VerificationToken = ''token-1'',
                       RecordName = ''_amazonses.example.com'',
                       ChangeId = ''/change/C1''\<rparr>\<rparr>"
proof -
  have 1: "outcome (create_or_update_verification
       (stub_aws (Inr ''token-1'') (Inr ''/change/C1'') (Inr []))
       ''example.com'' ''Z123'' ''us-east-1'' 0) =
     Inr \<lparr>PhysicalResourceId = ''ses-verification-example.com'',
          Data = Some \<lparr>VerificationToken = ''token-1'',
                       RecordName = ''_amazonses.example.com'',
                       ChangeId = ''/change/C1''\<rparr>\<rparr>"
    by (simp add: create_or_update_verification_def stub_aws_def Let_def)
  have 2: "outcome (create_or_update_verification
       (stub_aws (Inr ''token-2'') (Inr ''/change/C2'') (Inr []))
       ''example.com'' ''Z456'' ''eu-west-1'' 2) =
     Inr \<lparr>PhysicalResourceId = ''ses-verification-example.com'',
          Data = Some \<lparr>VerificationToken = ''token-2'',
                       RecordName = ''_amazonses.example.com'',
                       ChangeId = ''/change/C2''\<rparr>\<rparr>"
    by (simp add: create_or_update_verification_def stub_aws_def Let_def)
  from 1 2 create_or_update_physical_id [OF 1 2] show ?thesis by simp
qed

subsection \<open>The DNS change of Create and Update\<close>

text \<open>
  C3. When the verification service returns the token \<open>t\<close> for the domain \<open>d\<close>,
  \<open>create_or_update_verification\<close> sends, after the verification request, exactly one
  change request to the zone: a single UPSERT of the record set named \<open>_amazonses.\<close>
  followed by \<open>d\<close>, of type TXT, with TTL 300 and the one value \<open>t\<close> between two
  double-quote characters (\<open>CHR 0x22\<close>). When the DNS service answers with a change id,
  the response carries the token, the record name and that change id in \<open>Data\<close>.
\<close>

theorem create_or_update_dns_change:
  assumes "verify_domain_identity aws r d w = (Inr t, w1)"
  shows "calls (create_or_update_verification aws d z r w) =
           [VerifyDomainIdentity r d,
            ChangeResourceRecordSets z
              \<lparr>Changes = [\<lparr>Action = ''UPSERT'',
                 ResourceRecordSet = \<lparr>Name = ''_amazonses.'' @ d, Type = ''TXT'',
                   TTL = Some 300,
                   ResourceRecords = [\<lparr>Value = [CHR 0x22] @ t @ [CHR 0x22]\<rparr>]\<rparr>\<rparr>]\<rparr>] \<and>
         (\<forall>change_id w2.
            change_resource_record_sets aws z
              \<lparr>Changes = [\<lparr>Action = ''UPSERT'',
                 ResourceRecordSet = \<lparr>Name = ''_amazonses.'' @ d, Type = ''TXT'',
                   TTL = Some 300,
                   ResourceRecords = [\<lparr>Value = [CHR 0x22] @ t @ [CHR 0x22]\<rparr>]\<rparr>\<rparr>]\<rparr> w1 =
              (Inr change_id, w2) \<longrightarrow>
            outcome (create_or_update_verification aws d z r w) =
              Inr \<lparr>PhysicalResourceId = ''ses-verification-'' @ d,
                   Data = Some \<lparr>VerificationToken = t,
                                RecordName = ''_amazonses.'' @ d,
                                ChangeId = change_id\<rparr>\<rparr>)"
  using assms
  by (simp add: create_or_update_verification_def Let_def split: prod.splits sum.splits)

theorem create_or_update_dns_change_witness:
  "verify_domain_identity (stub_aws (Inr ''token-1'') (Inr ''/change/C1'') (Inr example_listing))
       ''us-east-1'' ''example.com'' 0 = (Inr ''token-1'', Suc 0) \<and>
   calls (create_or_update_verification (stub_aws (Inr ''token-1'') (Inr ''/change/C1'') (Inr example_listing))
       ''example.com'' ''Z123'' ''us-east-1'' 0) =
     [VerifyDomainIdentity ''us-east-1'' ''example.com'',
      ChangeResourceRecordSets ''Z123''
        \<lparr>Changes = [\<lparr>Action = ''UPSERT'',
          ResourceRecordSet = \<lparr>Name = ''_amazonses.example.com'', Type = ''TXT'',
            TTL = Some 300,
            ResourceRecords = [\<lparr>Value = [CHR 0x22] @ ''token-1'' @ [CHR 0x22]\<rparr>]\<rparr>\<rparr>]\<rparr>] \<and>
   outcome (create_or_update_verification (stub_aws (Inr ''token-1'') (Inr ''/change/C1'') (Inr example_listing))
       ''example.com'' ''Z123'' ''us-east-1'' 0) =
     Inr \<lparr>PhysicalResourceId = ''ses-verification-example.com'',
          Data = Some \<lparr>VerificationToken = ''token-1'',
                       RecordName = ''_amazonses.example.com'',
                       ChangeId = ''/change/C1''\<rparr>\<rparr>"
proof -
  let ?aws = "stub_aws (Inr ''token-1'') (Inr ''/change/C1'') (Inr example_listing)"
  have v: "verify_domain_identity ?aws ''us-east-1'' ''example.com'' 0 =
      (Inr ''token-1'', Suc 0)"
    by (simp add: stub_aws_def)
  have c: "change_resource_record_sets ?aws ''Z123''
        \<lparr>Changes = [\<lparr>Action = ''UPSERT'',
          ResourceRecordSet = \<lparr>Name = ''_amazonses.example.com'', Type = ''TXT'',
            TTL = Some 300,
            ResourceRecords = [\<lparr>Value = [CHR 0x22] @ ''token-1'' @ [CHR 0x22]\<rparr>]\<rparr>\<rparr>]\<rparr> (Suc 0) =
      (Inr ''/change/C1'', Suc (Suc 0))"
    by (simp add: stub_aws_def)
  note t = create_or_update_dns_change [OF v, of "''Z123''"]
  from t have "calls (create_or_update_verification ?aws
       ''example.com'' ''Z123'' ''us-east-1'' 0) =
     [VerifyDomainIdentity ''us-east-1'' ''example.com'',
      ChangeResourceRecordSets ''Z123''
        \<lparr>Changes = [\<lparr>Action = ''UPSERT'',
          ResourceRecordSet = \<lparr>Name = ''_amazonses.example.com'', Type = ''TXT'',
            TTL = Some 300,
            ResourceRecords = [\<lparr>Value = [CHR 0x22] @ ''token-1'' @ [CHR 0x22]\<rparr>]\<rparr>\<rparr>]\<rparr>]"
    by simp
  moreover from t c have "outcome (create_or_update_verification ?aws
       ''example.com'' ''Z123'' ''us-east-1'' 0) =
     Inr \<lparr>PhysicalResourceId = ''ses-verification-example.com'',
          Data = Some \<lparr>VerificationToken = ''token-1'',
                       RecordName = ''_amazonses.example.com'',
                       ChangeId = ''/change/C1''\<rparr>\<rparr>"
    by simp
  ultimately show ?thesis using v by simp
qed

subsection \<open>Which record sets Delete selects\<close>

text \<open>
  C4. Every change request that \<open>delete_verification\<close> sends goes to the zone it was
  given and is a single DELETE of a record set \<open>rs\<close> of the listing whose name, after
  \<^verbatim>\<open>rstrip('.')\<close>, equals \<open>_amazonses.\<close> followed by the domain, and whose type is
  TXT. So a record set of any other name or type is never sent, and nothing is sent
  when the listing fails. \<^verbatim>\<open>rstrip\<close> removes every trailing dot: the name of \<open>rs\<close>
  is the record name followed by \<open>k\<close> dots, for some \<open>k\<close>.
\<close>

theorem delete_only_matching_record_sets:
  assumes "ChangeResourceRecordSets z' b \<in> set (calls (delete_verification aws d z r w))"
  shows "\<exists>rss w1 rs k.
           list_resource_record_sets aws z (''_amazonses.'' @ d) ''TXT'' w = (Inr rss, w1) \<and>
           rs \<in> set rss \<and> z' = z \<and>
           b = \<lparr>Changes = [\<lparr>Action = ''DELETE'', ResourceRecordSet = rs\<rparr>]\<rparr> \<and>
           rstrip ''.'' (Name rs) = ''_amazonses.'' @ d \<and>
           Name rs = ''_amazonses.'' @ d @ replicate k CHR ''.'' \<and>
           Type rs = ''TXT''"
proof -
  define rn where "rn = ''_amazonses.'' @ d"
  define P where "P = (\<lambda>rs::record_set. rstrip ''.'' (Name rs) = rn \<and> Type rs = ''TXT'')"
  obtain res w1 where l: "list_resource_record_sets aws z rn ''TXT'' w = (res, w1)"
    by (cases "list_resource_record_sets aws z rn ''TXT'' w")
  have c: "calls (delete_verification aws d z r w) =
      ListResourceRecordSets z rn ''TXT'' #
      (case res of Inl e \<Rightarrow> [] | Inr rss \<Rightarrow> calls (delete_loop aws z rn rss w1))"
    using l unfolding rn_def
    by (simp add: delete_verification_def delete_try_def Let_def split: prod.splits sum.splits)
  from assms obtain rss where rss: "res = Inr rss"
    and "ChangeResourceRecordSets z' b \<in> set (calls (delete_loop aws z rn rss w1))"
    unfolding c by (cases res) simp_all
  then obtain rs where f: "find P rss = Some rs" and z: "z' = z"
    and b: "b = \<lparr>Changes = [\<lparr>Action = ''DELETE'', ResourceRecordSet = rs\<rparr>]\<rparr>"
    unfolding delete_loop_calls P_def by (cases "find P rss") (simp_all add: P_def)
  from f have s: "rs \<in> set rss" and m: "P rs"
    by (auto simp: find_Some_iff)
  from m have n: "rstrip ''.'' (Name rs) = rn" and t: "Type rs = ''TXT''"
    by (simp_all add: P_def)
  from n obtain k where k: "Name rs = rn @ replicate k CHR ''.''"
    using rstrip_dot_iff [of "Name rs" rn] by blast
  from l rss s z b n k t show ?thesis
    unfolding rn_def by (intro exI [of _ rss] exI [of _ w1] exI [of _ rs] exI [of _ k]) simp
qed

theorem delete_only_matching_record_sets_witness:
  "ChangeResourceRecordSets ''Z123'' \<lparr>Changes = [\<lparr>Action = ''DELETE'', ResourceRecordSet = example_record_set\<rparr>]\<rparr>
     \<in> set (calls (delete_verification (stub_aws (Inr ''token-1'') (Inr ''/change/C1'') (Inr example_listing))
          ''example.com'' ''Z123'' ''us-east-1'' 0)) \<and>
   example_record_set \<in> set example_listing \<and>
   rstrip ''.'' (Name example_record_set) = ''_amazonses.example.com'' \<and>
   Type example_record_set = ''TXT''"
proof -
  let ?aws = "stub_aws (Inr ''token-1'') (Inr ''/change/C1'') (Inr example_listing)"
  have h: "ChangeResourceRecordSets ''Z123'' \<lparr>Changes = [\<lparr>Action = ''DELETE'', ResourceRecordSet = example_record_set\<rparr>]\<rparr>
     \<in> set (calls (delete_verification ?aws ''example.com'' ''Z123'' ''us-east-1'' 0))"
    by (simp add: delete_verification_def delete_try_def stub_aws_def example_listing_def
        example_record_set_def rstrip_def Let_def)
  from delete_only_matching_record_sets [OF h]
  obtain rss w1 rs where l: "list_resource_record_sets ?aws ''Z123''
        (''_amazonses.'' @ ''example.com'') ''TXT'' 0 = (Inr rss, w1)"
    and s: "rs \<in> set rss"
    and b: "\<lparr>Changes = [\<lparr>Action = ''DELETE'', ResourceRecordSet = example_record_set\<rparr>]\<rparr> =
        \<lparr>Changes = [\<lparr>Action = ''DELETE'', ResourceRecordSet = rs\<rparr>]\<rparr>"
    and n: "rstrip ''.'' (Name rs) = ''_amazonses.'' @ ''example.com''"
    and t: "Type rs = ''TXT''"
    by blast
  from b have rs: "rs = example_record_set" by simp
  from l have "rss = example_listing" by (simp add: stub_aws_def)
  with s n t rs h show ?thesis by simp
qed

subsection \<open>Delete sends at most one change\<close>

text \<open>
  C5. The requests of \<open>delete_verification\<close> are one listing, from the record name
  \<open>_amazonses.\<close> followed by the domain and the type TXT, and after it: nothing when
  the listing fails or no record set of it passes the test; otherwise one change
  request, a single DELETE whose record set is the first of the listing that passes the
  test (\<open>find\<close>), as the listing returned it. In every case the outcome is the response
  with the physical resource id of the domain.
\<close>

theorem delete_first_match_only:
  "calls (delete_verification aws d z r w) =
     ListResourceRecordSets z (''_amazonses.'' @ d) ''TXT'' #
     (case fst (list_resource_record_sets aws z (''_amazonses.'' @ d) ''TXT'' w) of
        Inl e \<Rightarrow> []
      | Inr rss \<Rightarrow>
          (case find (\<lambda>rs. rstrip ''.'' (Name rs) = ''_amazonses.'' @ d \<and> Type rs = ''TXT'') rss of
             None \<Rightarrow> []
           | Some rs \<Rightarrow>
               [ChangeResourceRecordSets z
                  \<lparr>Changes = [\<lparr>Action = ''DELETE'', ResourceRecordSet = rs\<rparr>]\<rparr>])) \<and>
   outcome (delete_verification aws d z r w) =
     Inr \<lparr>PhysicalResourceId = ''ses-verification-'' @ d, Data = None\<rparr>"
proof (intro conjI)
  show "calls (delete_verification aws d z r w) =
     ListResourceRecordSets z (''_amazonses.'' @ d) ''TXT'' #
     (case fst (list_resource_record_sets aws z (''_amazonses.'' @ d) ''TXT'' w) of
        Inl e \<Rightarrow> []
      | Inr rss \<Rightarrow>
          (case find (\<lambda>rs. rstrip ''.'' (Name rs) = ''_amazonses.'' @ d \<and> Type rs = ''TXT'') rss of
             None \<Rightarrow> []
           | Some rs \<Rightarrow>
               [ChangeResourceRecordSets z
                  \<lparr>Changes = [\<lparr>Action = ''DELETE'', ResourceRecordSet = rs\<rparr>]\<rparr>]))"
    unfolding delete_verification_calls delete_loop_calls ..
  show "outcome (delete_verification aws d z r w) =
     Inr \<lparr>PhysicalResourceId = ''ses-verification-'' @ d, Data = None\<rparr>"
    by (simp add: delete_verification_def delete_try_def Let_def split: prod.splits sum.splits)
qed

text \<open>
  The first record set that passes the test is sent with its own TTL and value, the
  second one that passes is not sent; a listing without such a record set gives no change.
\<close>

theorem delete_first_match_only_witness:
  "calls (delete_verification (stub_aws (Inr ''token-1'') (Inr ''/change/C1'') (Inr example_listing))
       ''example.com'' ''Z123'' ''us-east-1'' 0) =
     [ListResourceRecordSets ''Z123'' ''_amazonses.example.com'' ''TXT'',
      ChangeResourceRecordSets ''Z123''
        \<lparr>Changes = [\<lparr>Action = ''DELETE'',
           ResourceRecordSet =
             \<lparr>Name = ''_amazonses.example.com.'', Type = ''TXT'', TTL = Some 1800,
              ResourceRecords = [\<lparr>Value = [CHR 0x22] @ ''old-token'' @ [CHR 0x22]\<rparr>]\<rparr>\<rparr>]\<rparr>] \<and>
   calls (delete_verification
       (stub_aws (Inr ''token-1'') (Inr ''/change/C1'') (Inr (take 2 example_listing)))
       ''example.com'' ''Z123'' ''us-east-1'' 0) =
     [ListResourceRecordSets ''Z123'' ''_amazonses.example.com'' ''TXT''] \<and>
   outcome (delete_verification
       (stub_aws (Inr ''token-1'') (Inr ''/change/C1'') (Inr (take 2 example_listing)))
       ''example.com'' ''Z123'' ''us-east-1'' 0) =
     Inr \<lparr>PhysicalResourceId = ''ses-verification-example.com'', Data = None\<rparr>"
  using delete_first_match_only
    [of "stub_aws (Inr ''token-1'') (Inr ''/change/C1'') (Inr example_listing)"
        "''example.com''" "''Z123''" "''us-east-1''" 0]
    delete_first_match_only
    [of "stub_aws (Inr ''token-1'') (Inr ''/change/C1'') (Inr (take 2 example_listing))"
        "''example.com''" "''Z123''" "''us-east-1''" 0]
  by (simp add: stub_aws_def example_listing_def example_record_set_def rstrip_def)

subsection \<open>Failures of Create and Update\<close>

text \<open>
  C6. When the verification request raises \<open>e\<close>, \<open>create_or_update_verification\<close>
  raises \<open>e\<close>, having sent that one request and nothing else. When the verification
  request returns a token and the change request raises \<open>e\<close>, it raises \<open>e\<close>, having sent
  the verification request and that one change request: no request is repeated and none
  follows the failure, and the world is left as the failing request left it.
\<close>

theorem create_or_update_propagates_failure:
  "(verify_domain_identity aws r d w = (Inl e, w1) \<longrightarrow>
      create_or_update_verification aws d z r w = (Inl e, [VerifyDomainIdentity r d], w1)) \<and>
   (verify_domain_identity aws r d w = (Inr t, w1) \<and>
    change_resource_record_sets aws z
      \<lparr>Changes = [\<lparr>Action = ''UPSERT'',
         ResourceRecordSet = \<lparr>Name = ''_amazonses.'' @ d, Type = ''TXT'',
           TTL = Some 300,
           ResourceRecords = [\<lparr>Value = [CHR 0x22] @ t @ [CHR 0x22]\<rparr>]\<rparr>\<rparr>]\<rparr> w1 = (Inl e, w2) \<longrightarrow>
      create_or_update_verification aws d z r w =
        (Inl e,
         [VerifyDomainIdentity r d,
          ChangeResourceRecordSets z
            \<lparr>Changes = [\<lparr>Action = ''UPSERT'',
               ResourceRecordSet = \<lparr>Name = ''_amazonses.'' @ d, Type = ''TXT'',
                 TTL = Some 300,
                 ResourceRecords = [\<lparr>Value = [CHR 0x22] @ t @ [CHR 0x22]\<rparr>]\<rparr>\<rparr>]\<rparr>],
         w2))"
  by (simp add: create_or_update_verification_def Let_def split: prod.splits sum.splits)

theorem create_or_update_propagates_failure_witness:
  "create_or_update_verification
       (stub_aws (Inl (ClientError ''InvalidParameterValue'')) (Inr ''/change/C1'') (Inr []))
       ''example.com'' ''Z123'' ''us-east-1'' 0 =
     (Inl (ClientError ''InvalidParameterValue''),
      [VerifyDomainIdentity ''us-east-1'' ''example.com''], Suc 0) \<and>
   create_or_update_verification
       (stub_aws (Inr ''token-1'') (Inl (ClientError ''NoSuchHostedZone'')) (Inr []))
       ''example.com'' ''Z123'' ''us-east-1'' 0 =
     (Inl (ClientError ''NoSuchHostedZone''),
      [VerifyDomainIdentity ''us-east-1'' ''example.com'',
       ChangeResourceRecordSets ''Z123''
        \<lparr>Changes = [\<lparr>Action = ''UPSERT'',
          ResourceRecordSet = \<lparr>Name = ''_amazonses.example.com'', Type = ''TXT'',
            TTL = Some 300,
            ResourceRecords = [\<lparr>Value = [CHR 0x22] @ ''token-1'' @ [CHR 0x22]\<rparr>]\<rparr>\<rparr>]\<rparr>],
      Suc (Suc 0))"
proof -
  let ?a1 = "stub_aws (Inl (ClientError ''InvalidParameterValue'')) (Inr ''/change/C1'') (Inr [])"
  let ?a2 = "stub_aws (Inr ''token-1'') (Inl (ClientError ''NoSuchHostedZone'')) (Inr [])"
  have v1: "verify_domain_identity ?a1 ''us-east-1'' ''example.com'' 0 =
      (Inl (ClientError ''InvalidParameterValue''), Suc 0)"
    by (simp add: stub_aws_def)
  have v2: "verify_domain_identity ?a2 ''us-east-1'' ''example.com'' 0 =
      (Inr ''token-1'', Suc 0)"
    by (simp add: stub_aws_def)
  have c2: "change_resource_record_sets ?a2 ''Z123''
        \<lparr>Changes = [\<lparr>Action = ''UPSERT'',
          ResourceRecordSet = \<lparr>Name = ''_amazonses.example.com'', Type = ''TXT'',
            TTL = Some 300,
            ResourceRecords = [\<lparr>Value = [CHR 0x22] @ ''token-1'' @ [CHR 0x22]\<rparr>]\<rparr>\<rparr>]\<rparr> (Suc 0) =
      (Inl (ClientError ''NoSuchHostedZone''), Suc (Suc 0))"
    by (simp add: stub_aws_def)
  from v1 create_or_update_propagates_failure
    [of ?a1 "''us-east-1''" "''example.com''" 0 "ClientError ''InvalidParameterValue''"
        "Suc 0" "''Z123''"]
  have 1: "create_or_update_verification ?a1 ''example.com'' ''Z123'' ''us-east-1'' 0 =
     (Inl (ClientError ''InvalidParameterValue''),
      [VerifyDomainIdentity ''us-east-1'' ''example.com''], Suc 0)"
    by simp
  from v2 c2 create_or_update_propagates_failure
    [of ?a2 "''us-east-1''" "''example.com''" 0 "ClientError ''NoSuchHostedZone''"
        "Suc 0" "''Z123''" "''token-1''" "Suc (Suc 0)"]
  have 2: "create_or_update_verification ?a2 ''example.com'' ''Z123'' ''us-east-1'' 0 =
     (Inl (ClientError ''NoSuchHostedZone''),
      [VerifyDomainIdentity ''us-east-1'' ''example.com'',
       ChangeResourceRecordSets ''Z123''
        \<lparr>Changes = [\<lparr>Action = ''UPSERT'',
          ResourceRecordSet = \<lparr>Name = ''_amazonses.example.com'', Type = ''TXT'',
            TTL = Some 300,
            ResourceRecords = [\<lparr>Value = [CHR 0x22] @ ''token-1'' @ [CHR 0x22]\<rparr>]\<rparr>\<rparr>]\<rparr>],
      Suc (Suc 0))"
    by simp
  from 1 2 show ?thesis by (rule conjI)
qed

subsection \<open>Unknown request types\<close>

text \<open>
  C7. For an event with a request type and all three resource properties, whose request
  type is none of \<^verbatim>\<open>Create\<close>, \<^verbatim>\<open>Update\<close> and \<^verbatim>\<open>Delete\<close>, \<open>handler\<close> raises
  \<^verbatim>\<open>ValueError\<close>, sends no request to any service and leaves the world as it was.
\<close>

theorem handler_unknown_request_type:
  assumes "RequestType event = Some request_type"
    and "ResourceProperties event = Some props"
    and "props ''DomainName'' = Some d"
    and "props ''HostedZoneId'' = Some z"
    and "props ''Region'' = Some r"
    and "request_type \<notin> {''Create'', ''Update'', ''Delete''}"
  shows "handler aws event context w =
           (Inl (ValueError (''Unknown request type: '' @ request_type)), [], w)"
  using assms by (simp add: handler_def getitem_def)

theorem handler_unknown_request_type_witness:
  "handler (stub_aws (Inr ''token-1'') (Inr ''/change/C1'') (Inr example_listing))
       (example_event ''Replace'') () 0 =
     (Inl (ValueError ''Unknown request type: Replace''), [], 0)"
proof -
  have "''Replace'' \<notin> {''Create'', ''Update'', ''Delete''}" by simp
  from handler_unknown_request_type
    [of "example_event ''Replace''" "''Replace''" example_properties "''example.com''"
        "''Z123''" "''us-east-1''", OF _ _ _ _ _ this,
     of "stub_aws (Inr ''token-1'') (Inr ''/change/C1'') (Inr example_listing)" "()" 0]
  show ?thesis by (simp add: example_event_def example_properties_def)
qed

subsection \<open>Missing fields\<close>

text \<open>
  C8. For an event without a request type, without resource properties, or whose
  resource properties lack the domain name, the zone id or the region, \<open>handler\<close> raises
  \<^verbatim>\<open>KeyError\<close> for one of these keys, whatever the request type is (so for
  \<^verbatim>\<open>Delete\<close> too), sends no request to any service and leaves the world as it was.
\<close>

theorem handler_missing_field:
  assumes "RequestType event = None \<or> ResourceProperties event = None \<or>
     (\<exists>props. ResourceProperties event = Some props \<and>
        (props ''DomainName'' = None \<or> props ''HostedZoneId'' = None \<or>
         props ''Region'' = None))"
  shows "\<exists>k. k \<in> {''RequestType'', ''ResourceProperties'', ''DomainName'', ''HostedZoneId'',
                 ''Region''} \<and>
             handler aws event context w = (Inl (KeyError k), [], w)"
proof (cases "RequestType event")
  case None
  then show ?thesis by (simp add: handler_def)
next
  case rt: (Some request_type)
  show ?thesis
  proof (cases "ResourceProperties event")
    case None
    with rt show ?thesis by (simp add: handler_def)
  next
    case ps: (Some props)
    with assms rt
    have missing: "props ''DomainName'' = None \<or> props ''HostedZoneId'' = None \<or>
        props ''Region'' = None"
      by simp
    show ?thesis
    proof (cases "props ''DomainName''")
      case None
      with rt ps show ?thesis by (simp add: handler_def getitem_def)
    next
      case dn: (Some domain_name)
      show ?thesis
      proof (cases "props ''HostedZoneId''")
        case None
        with rt ps dn show ?thesis by (simp add: handler_def getitem_def)
      next
        case hz: (Some hosted_zone_id)
        with missing dn have "props ''Region'' = None" by simp
        with rt ps dn hz show ?thesis by (simp add: handler_def getitem_def)
      qed
    qed
  qed
qed

theorem handler_missing_field_witness:
  "handler (stub_aws (Inr ''token-1'') (Inr ''/change/C1'') (Inr example_listing))
       event_without_region () 0 =
     (Inl (KeyError ''Region''), [], 0)"
proof -
  let ?aws = "stub_aws (Inr ''token-1'') (Inr ''/change/C1'') (Inr example_listing)"
  have "\<exists>props. ResourceProperties event_without_region = Some props \<and>
      (props ''DomainName'' = None \<or> props ''HostedZoneId'' = None \<or>
       props ''Region'' = None)"
    by (simp add: event_without_region_def)
  then have "RequestType event_without_region = None \<or>
      ResourceProperties event_without_region = None \<or>
      (\<exists>props. ResourceProperties event_without_region = Some props \<and>
        (props ''DomainName'' = None \<or> props ''HostedZoneId'' = None \<or>
         props ''Region'' = None))"
    by blast
  from handler_missing_field [OF this, of ?aws "()" 0]
  obtain k where k: "handler ?aws event_without_region () 0 = (Inl (KeyError k), [], 0)"
    by blast
  have "handler ?aws event_without_region () 0 = (Inl (KeyError ''Region''), [], 0)"
    by (simp add: handler_def getitem_def event_without_region_def)
  with k show ?thesis by simp
qed

subsection \<open>Create and Update are one operation\<close>

text \<open>
  C9. Two events with the same resource properties, one of request type \<^verbatim>\<open>Create\<close>
  and one of request type \<^verbatim>\<open>Update\<close>, give the same run of \<open>handler\<close> on the same
  services and the same state of the world: the same outcome, the same requests in the
  same order and the same final state. When the three properties are present, this run
  is the run of \<open>create_or_update_verification\<close> on them.
\<close>

theorem handler_create_update_same:
  assumes "RequestType e1 = Some ''Create''"
    and "RequestType e2 = Some ''Update''"
    and "ResourceProperties e2 = ResourceProperties e1"
  shows "handler aws e1 c1 w = handler aws e2 c2 w \<and>
         (\<forall>props d z r.
            ResourceProperties e1 = Some props \<and> props ''DomainName'' = Some d \<and>
            props ''HostedZoneId'' = Some z \<and> props ''Region'' = Some r \<longrightarrow>
            handler aws e1 c1 w = create_or_update_verification aws d z r w)"
  using assms by (simp add: handler_def getitem_def split: option.splits)

theorem handler_create_update_same_witness:
  "handler (stub_aws (Inr ''token-1'') (Inr ''/change/C1'') (Inr example_listing))
       (example_event ''Create'') () 0 =
   handler (stub_aws (Inr ''token-1'') (Inr ''/change/C1'') (Inr example_listing))
       (example_event ''Update'') () 0 \<and>
   handler (stub_aws (Inr ''token-1'') (Inr ''/change/C1'') (Inr example_listing))
       (example_event ''Create'') () 0 =
   create_or_update_verification (stub_aws (Inr ''token-1'') (Inr ''/change/C1'') (Inr example_listing))
       ''example.com'' ''Z123'' ''us-east-1'' 0 \<and>
   outcome (handler (stub_aws (Inr ''token-1'') (Inr ''/change/C1'') (Inr example_listing))
       (example_event ''Update'') () 0) =
     Inr \<lparr>PhysicalResourceId = ''ses-verification-example.com'',
          Data = Some \<lparr>VerificationToken = ''token-1'',
                       RecordName = ''_amazonses.example.com'',
                       ChangeId = ''/change/C1''\<rparr>\<rparr>"
proof -
  let ?aws = "stub_aws (Inr ''token-1'') (Inr ''/change/C1'') (Inr example_listing)"
  have c: "RequestType (example_event ''Create'') = Some ''Create''"
    and u: "RequestType (example_event ''Update'') = Some ''Update''"
    and p: "ResourceProperties (example_event ''Update'') =
        ResourceProperties (example_event ''Create'')"
    by (simp_all add: example_event_def)
  note t = handler_create_update_same [OF c u p, of ?aws "()" 0 "()"]
  from t have 1: "handler ?aws (example_event ''Create'') () 0 =
      handler ?aws (example_event ''Update'') () 0"
    by (rule conjunct1)
  have "ResourceProperties (example_event ''Create'') = Some example_properties \<and>
      example_properties ''DomainName'' = Some ''example.com'' \<and>
      example_properties ''HostedZoneId'' = Some ''Z123'' \<and>
      example_properties ''Region'' = Some ''us-east-1''"
    by (simp add: example_event_def example_properties_def)
  with t have 2: "handler ?aws (example_event ''Create'') () 0 =
      create_or_update_verification ?aws ''example.com'' ''Z123'' ''us-east-1'' 0"
    by blast
  have "outcome (create_or_update_verification ?aws
      ''example.com'' ''Z123'' ''us-east-1'' 0) =
     Inr \<lparr>PhysicalResourceId = ''ses-verification-example.com'',
          Data = Some \<lparr>VerificationToken = ''token-1'',
                       RecordName = ''_amazonses.example.com'',
                       ChangeId = ''/change/C1''\<rparr>\<rparr>"
    by (simp add: create_or_update_verification_def stub_aws_def Let_def)
  with 1 2 show ?thesis by simp
qed

subsection \<open>Delete does not depend on the region\<close>

text \<open>
  C10. Two runs of \<open>delete_verification\<close> that differ in the region only, on the same
  services and the same state of the world, are equal: the same outcome, the same
  requests in the same order and the same final state.
\<close>

theorem delete_verification_region_independent:
  "delete_verification aws d z r1 w = delete_verification aws d z r2 w"
  by (simp add: delete_verification_def delete_try_def)

theorem delete_verification_region_independent_witness:
  "delete_verification (stub_aws (Inr ''token-1'') (Inr ''/change/C1'') (Inr example_listing))
       ''example.com'' ''Z123'' ''us-east-1'' 0 =
   delete_verification (stub_aws (Inr ''token-1'') (Inr ''/change/C1'') (Inr example_listing))
       ''example.com'' ''Z123'' ''eu-west-1'' 0"
  by (rule delete_verification_region_independent)

end
